theory Spec2Isabelle
  imports Main
begin

section \<open>Values shared by the stores\<close>

text \<open>
  Names are those of the source.  A field name that two interfaces share, or that is a
  reserved word here, carries a prefix naming its interface (\<open>tx_hash\<close>, \<open>u_status\<close>,
  \<open>p_preferences\<close>, \<open>ai_error\<close>, \<open>chunk_content\<close>).  A value that a function reads from
  its surroundings (the clock, the id generator, the network, the wallet provider) is an
  argument of its model.
\<close>

text \<open>
  A JavaScript value that has been thrown.  The handlers of the stores and of the chat hook
  only ask whether it is an \<open>Error\<close> instance and, if so, read its \<open>name\<close> and
  \<open>message\<close>.
\<close>

datatype js_throw = Error (name: string) (message: string) | NotAnError

text \<open>
  The result of an awaited step whose implementation lies outside the stores (the wallet
  provider's handshake, which the source stands in for with a timer).
\<close>

datatype provider_result = Resolved | Rejected js_throw

section \<open>The chain store (\<open>store/useChainStore.ts\<close>, \<open>types/blockchain.types.ts\<close>)\<close>

subsection \<open>Types\<close>

type_synonym Address = string

text \<open>\<open>SupportedChainId\<close> is a number; the table below is total on the five supported ones.\<close>

type_synonym SupportedChainId = nat

record NativeCurrency =
  currency_name :: string
  symbol :: string
  decimals :: nat

record ChainInfo =
  chain_id :: SupportedChainId
  chain_name :: string
  network :: string
  nativeCurrency :: NativeCurrency
  rpcUrls :: "string list"
  blockExplorerUrls :: "string list"
  iconUrl :: "string option"

datatype WalletStatus = Disconnected | Connecting | Connected | WalletError

record WalletState =
  status :: WalletStatus
  address :: "Address option"
  chainId :: "SupportedChainId option"
  balance :: int
  ensName :: "string option"
  ensAvatar :: "string option"

datatype TransactionStatus = Pending | Confirmed | Failed | Cancelled

record Transaction =
  tx_hash :: string
  tx_from :: Address
  tx_to :: Address
  tx_value :: int
  tx_chainId :: SupportedChainId
  tx_status :: TransactionStatus
  tx_timestamp :: int
  blockNumber :: "int option"
  gasUsed :: "int option"
  gasPrice :: "int option"
  tx_data :: "string option"
  description :: "string option"

text \<open>
  \<open>Partial<Transaction>\<close>: every key may be absent (\<open>None\<close>).  A key that is present
  overwrites the field when the object is spread over a transaction.
\<close>

record TransactionUpdates =
  u_hash :: "string option"
  u_from :: "Address option"
  u_to :: "Address option"
  u_value :: "int option"
  u_chainId :: "SupportedChainId option"
  u_status :: "TransactionStatus option"
  u_timestamp :: "int option"
  u_blockNumber :: "int option"
  u_gasUsed :: "int option"
  u_gasPrice :: "int option"
  u_data :: "string option"
  u_description :: "string option"

record ChainState =
  wallet :: WalletState
  currentChain :: "ChainInfo option"
  supportedChains :: "ChainInfo list"
  transactions :: "Transaction list"
  pendingTransactions :: "Transaction list"
  isWalletModalOpen :: bool
  isChainSwitching :: bool

subsection \<open>Constants\<close>

definition ether :: NativeCurrency where
  "ether = \<lparr>currency_name = ''Ether'', symbol = ''ETH'', decimals = 18\<rparr>"

definition chain_ethereum :: ChainInfo where
  "chain_ethereum = \<lparr>chain_id = 1, chain_name = ''Ethereum'', network = ''mainnet'',
     nativeCurrency = ether, rpcUrls = [''https://eth.llamarpc.com''],
     blockExplorerUrls = [''https://etherscan.io''],
     iconUrl = Some ''/assets/logos/ethereum.svg''\<rparr>"

definition chain_polygon :: ChainInfo where
  "chain_polygon = \<lparr>chain_id = 137, chain_name = ''Polygon'', network = ''polygon'',
     nativeCurrency = \<lparr>currency_name = ''MATIC'', symbol = ''MATIC'', decimals = 18\<rparr>,
     rpcUrls = [''https://polygon-rpc.com''],
     blockExplorerUrls = [''https://polygonscan.com''],
     iconUrl = Some ''/assets/logos/polygon.svg''\<rparr>"

definition chain_arbitrum :: ChainInfo where
  "chain_arbitrum = \<lparr>chain_id = 42161, chain_name = ''Arbitrum One'', network = ''arbitrum'',
     nativeCurrency = ether, rpcUrls = [''https://arb1.arbitrum.io/rpc''],
     blockExplorerUrls = [''https://arbiscan.io''],
     iconUrl = Some ''/assets/logos/arbitrum.svg''\<rparr>"

definition chain_optimism :: ChainInfo where
  "chain_optimism = \<lparr>chain_id = 10, chain_name = ''Optimism'', network = ''optimism'',
     nativeCurrency = ether, rpcUrls = [''https://mainnet.optimism.io''],
     blockExplorerUrls = [''https://optimistic.etherscan.io''],
     iconUrl = Some ''/assets/logos/optimism.svg''\<rparr>"

definition chain_base :: ChainInfo where
  "chain_base = \<lparr>chain_id = 8453, chain_name = ''Base'', network = ''base'',
     nativeCurrency = ether, rpcUrls = [''https://mainnet.base.org''],
     blockExplorerUrls = [''https://basescan.org''],
     iconUrl = Some ''/assets/logos/base.svg''\<rparr>"

text \<open>
  \<open>SUPPORTED_CHAINS[chainId]\<close>: the entry, or \<open>None\<close> where the JavaScript lookup gives
  \<open>undefined\<close> (an id outside \<open>SupportedChainId\<close>).
\<close>

definition SUPPORTED_CHAINS :: "SupportedChainId \<Rightarrow> ChainInfo option" where
  "SUPPORTED_CHAINS c =
     (if c = 1 then Some chain_ethereum
      else if c = 137 then Some chain_polygon
      else if c = 42161 then Some chain_arbitrum
      else if c = 10 then Some chain_optimism
      else if c = 8453 then Some chain_base
      else None)"

definition initialWalletState :: WalletState where
  "initialWalletState = \<lparr>status = Disconnected, address = None, chainId = None,
     balance = 0, ensName = None, ensAvatar = None\<rparr>"

text \<open>The store as \<open>create\<close> builds it; \<open>Object.values\<close> lists integer keys ascending.\<close>

definition initialChainState :: ChainState where
  "initialChainState = \<lparr>wallet = initialWalletState, currentChain = None,
     supportedChains = [chain_ethereum, chain_optimism, chain_polygon, chain_base, chain_arbitrum],
     transactions = [], pendingTransactions = [],
     isWalletModalOpen = False, isChainSwitching = False\<rparr>"

subsection \<open>The persist middleware\<close>

text \<open>
  The store is created inside \<open>persist\<close>, with \<open>createJSONStorage(() => localStorage)\<close>
  and \<open>partialize: (state) => ({ transactions: state.transactions.slice(0, 50) })\<close>.
  Every \<open>set\<close> of the store therefore commits the new state and then writes that slice
  of it with \<open>JSON.stringify\<close>, which throws a \<open>TypeError\<close> on a \<open>bigint\<close>.  Every
  \<open>Transaction\<close> holds one (\<open>value\<close>), so the write throws exactly when the slice is not
  empty.  The state stays committed and the error reaches the caller of \<open>set\<close>.
\<close>

definition persisted_slice :: "ChainState \<Rightarrow> Transaction list" where
  "persisted_slice s = take 50 (transactions s)"

definition bigint_error :: js_throw where
  "bigint_error = Error ''TypeError'' ''Do not know how to serialize a BigInt''"

text \<open>What the \<open>set\<close> that committed \<open>s\<close> throws.\<close>

definition persist_error :: "ChainState \<Rightarrow> js_throw option" where
  "persist_error s = (if persisted_slice s = [] then None else Some bigint_error)"

text \<open>
  The setters and the transaction actions each run one \<open>set\<close>.  Their functions below give
  the state that \<open>set\<close> commits; the call then throws \<open>persist_error\<close> of that state, if
  any (\<open>thrown\<close> below).
\<close>

subsection \<open>Wallet setters\<close>

definition setWalletStatus :: "WalletStatus \<Rightarrow> ChainState \<Rightarrow> ChainState" where
  "setWalletStatus st s = s\<lparr>wallet := (wallet s)\<lparr>status := st\<rparr>\<rparr>"

definition setWalletAddress :: "Address option \<Rightarrow> ChainState \<Rightarrow> ChainState" where
  "setWalletAddress a s = s\<lparr>wallet := (wallet s)\<lparr>address := a\<rparr>\<rparr>"

text \<open>\<open>chainId ? SUPPORTED_CHAINS[chainId] || null : null\<close>; the number 0 is falsy.\<close>

definition setChainId :: "SupportedChainId option \<Rightarrow> ChainState \<Rightarrow> ChainState" where
  "setChainId c s = s\<lparr>wallet := (wallet s)\<lparr>chainId := c\<rparr>,
     currentChain := (case c of None \<Rightarrow> None
                      | Some n \<Rightarrow> if n = 0 then None else SUPPORTED_CHAINS n)\<rparr>"

definition setBalance :: "int \<Rightarrow> ChainState \<Rightarrow> ChainState" where
  "setBalance b s = s\<lparr>wallet := (wallet s)\<lparr>balance := b\<rparr>\<rparr>"

definition setEnsName :: "string option \<Rightarrow> ChainState \<Rightarrow> ChainState" where
  "setEnsName n s = s\<lparr>wallet := (wallet s)\<lparr>ensName := n\<rparr>\<rparr>"

definition setEnsAvatar :: "string option \<Rightarrow> ChainState \<Rightarrow> ChainState" where
  "setEnsAvatar a s = s\<lparr>wallet := (wallet s)\<lparr>ensAvatar := a\<rparr>\<rparr>"

subsection \<open>Wallet actions\<close>

text \<open>
  \<open>connectWallet\<close> runs one \<open>set\<close> before its \<open>try\<close>, then awaits, then runs one
  \<open>set\<close> in the \<open>try\<close> or, when something in the \<open>try\<close> throws, one in the \<open>catch\<close>.
  The three functions below are the states these commit.  \<open>connectWallet_run\<close> runs a
  call to its end: it gives the states committed, in order, and the error the call rejects
  with, if any.  A \<open>set\<close> that throws before the \<open>try\<close> ends the call there; one that
  throws inside the \<open>try\<close> is caught like a rejection of the awaited step; one that throws
  inside the \<open>catch\<close> replaces the error being re-thrown.
\<close>

definition connectWallet_start :: "ChainState \<Rightarrow> ChainState" where
  "connectWallet_start s = s\<lparr>wallet := (wallet s)\<lparr>status := Connecting\<rparr>\<rparr>"

definition connectWallet_resolved :: "ChainState \<Rightarrow> ChainState" where
  "connectWallet_resolved s =
     s\<lparr>wallet := (wallet s)\<lparr>status := Connected,
          address := Some ''0x1234567890123456789012345678901234567890'',
          chainId := Some 1, balance := 0\<rparr>,
       currentChain := SUPPORTED_CHAINS 1\<rparr>"

definition connectWallet_rejected :: "ChainState \<Rightarrow> ChainState" where
  "connectWallet_rejected s = s\<lparr>wallet := (wallet s)\<lparr>status := WalletError\<rparr>\<rparr>"

definition connectWallet_run ::
  "provider_result \<Rightarrow> ChainState \<Rightarrow> ChainState list \<times> js_throw option" where
  "connectWallet_run r s =
     (let s1 = connectWallet_start s in
      case persist_error s1 of
        Some t \<Rightarrow> ([s1], Some t)
      | None \<Rightarrow>
          (case r of
             Resolved \<Rightarrow>
               (let s2 = connectWallet_resolved s1 in
                case persist_error s2 of
                  None \<Rightarrow> ([s1, s2], None)
                | Some t \<Rightarrow>
                    (let s3 = connectWallet_rejected s2 in
                     ([s1, s2, s3],
                      Some (case persist_error s3 of None \<Rightarrow> t | Some t' \<Rightarrow> t'))))
           | Rejected e \<Rightarrow>
               (let s3 = connectWallet_rejected s1 in
                ([s1, s3],
                 Some (case persist_error s3 of None \<Rightarrow> e | Some t' \<Rightarrow> t')))))"

text \<open>The state a call leaves behind, and the error it rejects with.\<close>

definition connectWallet ::
  "provider_result \<Rightarrow> string \<Rightarrow> ChainState \<Rightarrow> ChainState \<times> js_throw option" where
  "connectWallet r connectorId s =
     (last (fst (connectWallet_run r s)), snd (connectWallet_run r s))"

definition disconnectWallet :: "ChainState \<Rightarrow> ChainState" where
  "disconnectWallet s = s\<lparr>wallet := initialWalletState, currentChain := None\<rparr>"

text \<open>\<open>switchChain\<close> has the same shape: one \<open>set\<close> before the \<open>try\<close>, one after the await.\<close>

definition switchChain_start :: "ChainState \<Rightarrow> ChainState" where
  "switchChain_start s = s\<lparr>isChainSwitching := True\<rparr>"

definition switchChain_resolved :: "SupportedChainId \<Rightarrow> ChainState \<Rightarrow> ChainState" where
  "switchChain_resolved c s =
     s\<lparr>wallet := (wallet s)\<lparr>chainId := Some c\<rparr>,
       currentChain := SUPPORTED_CHAINS c,
       isChainSwitching := False\<rparr>"

definition switchChain_rejected :: "ChainState \<Rightarrow> ChainState" where
  "switchChain_rejected s = s\<lparr>isChainSwitching := False\<rparr>"

definition switchChain_run ::
  "provider_result \<Rightarrow> SupportedChainId \<Rightarrow> ChainState \<Rightarrow> ChainState list \<times> js_throw option" where
  "switchChain_run r c s =
     (let s1 = switchChain_start s in
      case persist_error s1 of
        Some t \<Rightarrow> ([s1], Some t)
      | None \<Rightarrow>
          (case r of
             Resolved \<Rightarrow>
               (let s2 = switchChain_resolved c s1 in
                case persist_error s2 of
                  None \<Rightarrow> ([s1, s2], None)
                | Some t \<Rightarrow>
                    (let s3 = switchChain_rejected s2 in
                     ([s1, s2, s3],
                      Some (case persist_error s3 of None \<Rightarrow> t | Some t' \<Rightarrow> t'))))
           | Rejected e \<Rightarrow>
               (let s3 = switchChain_rejected s1 in
                ([s1, s3],
                 Some (case persist_error s3 of None \<Rightarrow> e | Some t' \<Rightarrow> t')))))"

definition switchChain ::
  "provider_result \<Rightarrow> SupportedChainId \<Rightarrow> ChainState \<Rightarrow> ChainState \<times> js_throw option" where
  "switchChain r c s =
     (last (fst (switchChain_run r c s)), snd (switchChain_run r c s))"

subsection \<open>Transaction actions\<close>

definition addTransaction :: "Transaction \<Rightarrow> ChainState \<Rightarrow> ChainState" where
  "addTransaction tx s =
     s\<lparr>transactions := tx # transactions s,
       pendingTransactions :=
         (if tx_status tx = Pending then tx # pendingTransactions s
          else pendingTransactions s)\<rparr>"

text \<open>\<open>{ ...tx, ...updates }\<close>\<close>

definition merge_updates :: "Transaction \<Rightarrow> TransactionUpdates \<Rightarrow> Transaction" where
  "merge_updates tx u =
     tx\<lparr>tx_hash := (case u_hash u of None \<Rightarrow> tx_hash tx | Some v \<Rightarrow> v),
        tx_from := (case u_from u of None \<Rightarrow> tx_from tx | Some v \<Rightarrow> v),
        tx_to := (case u_to u of None \<Rightarrow> tx_to tx | Some v \<Rightarrow> v),
        tx_value := (case u_value u of None \<Rightarrow> tx_value tx | Some v \<Rightarrow> v),
        tx_chainId := (case u_chainId u of None \<Rightarrow> tx_chainId tx | Some v \<Rightarrow> v),
        tx_status := (case u_status u of None \<Rightarrow> tx_status tx | Some v \<Rightarrow> v),
        tx_timestamp := (case u_timestamp u of None \<Rightarrow> tx_timestamp tx | Some v \<Rightarrow> v),
        blockNumber := (case u_blockNumber u of None \<Rightarrow> blockNumber tx | Some v \<Rightarrow> Some v),
        gasUsed := (case u_gasUsed u of None \<Rightarrow> gasUsed tx | Some v \<Rightarrow> Some v),
        gasPrice := (case u_gasPrice u of None \<Rightarrow> gasPrice tx | Some v \<Rightarrow> Some v),
        tx_data := (case u_data u of None \<Rightarrow> tx_data tx | Some v \<Rightarrow> Some v),
        description := (case u_description u of None \<Rightarrow> description tx | Some v \<Rightarrow> Some v)\<rparr>"

text \<open>
  \<open>updates.status && updates.status !== 'pending'\<close>: every status is a non-empty string,
  so the first conjunct only asks that the key is present.
\<close>

definition leaves_pending :: "TransactionUpdates \<Rightarrow> bool" where
  "leaves_pending u = (case u_status u of None \<Rightarrow> False | Some st \<Rightarrow> st \<noteq> Pending)"

definition updateTransaction :: "string \<Rightarrow> TransactionUpdates \<Rightarrow> ChainState \<Rightarrow> ChainState" where
  "updateTransaction h u s =
     s\<lparr>transactions :=
         map (\<lambda>tx. if tx_hash tx = h then merge_updates tx u else tx) (transactions s),
       pendingTransactions :=
         (if leaves_pending u then filter (\<lambda>tx. tx_hash tx \<noteq> h) (pendingTransactions s)
          else pendingTransactions s)\<rparr>"

definition clearTransactions :: "ChainState \<Rightarrow> ChainState" where
  "clearTransactions s = s\<lparr>transactions := [], pendingTransactions := []\<rparr>"

definition setWalletModalOpen :: "bool \<Rightarrow> ChainState \<Rightarrow> ChainState" where
  "setWalletModalOpen b s = s\<lparr>isWalletModalOpen := b\<rparr>"

subsection \<open>Calls in sequence\<close>

text \<open>
  A call of one of the store's operations.  \<open>commits\<close> lists the states a call commits, one
  for each \<open>set\<close> it runs, in order; the last one is the state the call leaves behind.
  \<open>thrown\<close> is the error the call throws or rejects with.  A call runs to its end, or to
  the \<open>set\<close> that throws, before the next one starts.
\<close>

datatype chain_call =
    SetWalletStatus WalletStatus
  | SetWalletAddress "Address option"
  | SetChainId "SupportedChainId option"
  | SetBalance int
  | SetEnsName "string option"
  | SetEnsAvatar "string option"
  | ConnectWallet provider_result string
  | DisconnectWallet
  | SwitchChain provider_result SupportedChainId
  | AddTransaction Transaction
  | UpdateTransaction string TransactionUpdates
  | ClearTransactions
  | SetWalletModalOpen bool

fun commits :: "chain_call \<Rightarrow> ChainState \<Rightarrow> ChainState list" where
  "commits (SetWalletStatus st) s = [setWalletStatus st s]"
| "commits (SetWalletAddress a) s = [setWalletAddress a s]"
| "commits (SetChainId c) s = [setChainId c s]"
| "commits (SetBalance b) s = [setBalance b s]"
| "commits (SetEnsName n) s = [setEnsName n s]"
| "commits (SetEnsAvatar a) s = [setEnsAvatar a s]"
| "commits (ConnectWallet r c) s = fst (connectWallet_run r s)"
| "commits DisconnectWallet s = [disconnectWallet s]"
| "commits (SwitchChain r c) s = fst (switchChain_run r c s)"
| "commits (AddTransaction tx) s = [addTransaction tx s]"
| "commits (UpdateTransaction h u) s = [updateTransaction h u s]"
| "commits ClearTransactions s = [clearTransactions s]"
| "commits (SetWalletModalOpen b) s = [setWalletModalOpen b s]"

definition perform :: "chain_call \<Rightarrow> ChainState \<Rightarrow> ChainState" where
  "perform c s = last (commits c s)"

fun thrown :: "chain_call \<Rightarrow> ChainState \<Rightarrow> js_throw option" where
  "thrown (ConnectWallet r c) s = snd (connectWallet_run r s)"
| "thrown (SwitchChain r c) s = snd (switchChain_run r c s)"
| "thrown call s = persist_error (perform call s)"

text \<open>Every state the store passes through while the calls run one after the other.\<close>

fun visited :: "chain_call list \<Rightarrow> ChainState \<Rightarrow> ChainState list" where
  "visited [] s = []"
| "visited (c # cs) s = commits c s @ visited cs (perform c s)"

text \<open>The state after each call (not the states inside a call).\<close>

fun after_each :: "chain_call list \<Rightarrow> ChainState \<Rightarrow> ChainState list" where
  "after_each [] s = []"
| "after_each (c # cs) s = perform c s # after_each cs (perform c s)"

subsection \<open>The properties the specification states of the chain store\<close>

text \<open>\<open>status != 'connected' \<Rightarrow> address == null\<close>\<close>

definition address_only_when_connected :: "ChainState \<Rightarrow> bool" where
  "address_only_when_connected s =
     (status (wallet s) \<noteq> Connected \<longrightarrow> address (wallet s) = None)"

text \<open>
  The calls that keep it: a status setter keeps it when it sets \<open>connected\<close> or the address
  is null, an address setter when it sets null or the wallet is connected, and
  \<open>connectWallet\<close> when the address is null at the call.  Every other call is admitted.
\<close>

fun keeps_address_rule :: "chain_call \<Rightarrow> ChainState \<Rightarrow> bool" where
  "keeps_address_rule (SetWalletStatus st) s = (st = Connected \<or> address (wallet s) = None)"
| "keeps_address_rule (SetWalletAddress a) s = (a = None \<or> status (wallet s) = Connected)"
| "keeps_address_rule (ConnectWallet r c) s = (address (wallet s) = None)"
| "keeps_address_rule _ s = True"

fun all_keep_address_rule :: "chain_call list \<Rightarrow> ChainState \<Rightarrow> bool" where
  "all_keep_address_rule [] s = True"
| "all_keep_address_rule (c # cs) s =
     (keeps_address_rule c s \<and> all_keep_address_rule cs (perform c s))"

text \<open>\<open>pendingTransactions == filter(transactions, status == 'pending')\<close>\<close>

definition pending_view_exact :: "ChainState \<Rightarrow> bool" where
  "pending_view_exact s =
     (pendingTransactions s = filter (\<lambda>tx. tx_status tx = Pending) (transactions s))"

text \<open>
  The transaction calls that keep the view exact: every \<open>addTransaction\<close>, an
  \<open>updateTransaction\<close> whose updates carry a status other than \<open>pending\<close>, and one whose
  updates carry no status and whose hash names no pending transaction.
\<close>

fun keeps_pending_view :: "chain_call \<Rightarrow> ChainState \<Rightarrow> bool" where
  "keeps_pending_view (AddTransaction tx) s = True"
| "keeps_pending_view (UpdateTransaction h u) s =
     (leaves_pending u \<or>
      (u_status u = None \<and>
       list_all (\<lambda>tx. tx_hash tx \<noteq> h \<or> tx_status tx \<noteq> Pending) (transactions s)))"
| "keeps_pending_view _ s = False"

fun all_keep_pending_view :: "chain_call list \<Rightarrow> ChainState \<Rightarrow> bool" where
  "all_keep_pending_view [] s = True"
| "all_keep_pending_view (c # cs) s =
     (keeps_pending_view c s \<and> all_keep_pending_view cs (perform c s))"

text \<open>A sequence of \<open>addTransaction\<close> and \<open>updateTransaction\<close> calls only.\<close>

fun transaction_call :: "chain_call \<Rightarrow> bool" where
  "transaction_call (AddTransaction tx) = True"
| "transaction_call (UpdateTransaction h u) = True"
| "transaction_call _ = False"

text \<open>Sample values for the closed examples.\<close>

definition sample_tx :: Transaction where
  "sample_tx = \<lparr>tx_hash = ''0x1'', tx_from = ''0xaa'', tx_to = ''0xbb'', tx_value = 1,
     tx_chainId = 1, tx_status = Pending, tx_timestamp = 0, blockNumber = None,
     gasUsed = None, gasPrice = None, tx_data = None, description = None\<rparr>"

definition no_updates :: TransactionUpdates where
  "no_updates = \<lparr>u_hash = None, u_from = None, u_to = None, u_value = None,
     u_chainId = None, u_status = None, u_timestamp = None, u_blockNumber = None,
     u_gasUsed = None, u_gasPrice = None, u_data = None, u_description = None\<rparr>"

section \<open>The user store (\<open>store/useUserStore.ts\<close>, \<open>types/index.d.ts\<close>)\<close>

subsection \<open>Types\<close>

datatype Theme = Light | Dark | System

record UserPreferences =
  theme :: Theme
  notifications :: bool
  language :: string
  newsletter :: bool

text \<open>Dates are milliseconds since the epoch.\<close>

record User =
  user_id :: string
  email :: string
  username :: string
  walletAddress :: "string option"
  avatar :: "string option"
  createdAt :: int
  updatedAt :: int
  preferences :: UserPreferences

text \<open>
  The \<open>user\<close> object of a session response body, as the backend sends it: the fields of
  \<open>User\<close>, with \<open>preferences\<close> possibly missing.
\<close>

record UserPayload =
  p_id :: string
  p_email :: string
  p_username :: string
  p_walletAddress :: "string option"
  p_avatar :: "string option"
  p_createdAt :: int
  p_updatedAt :: int
  p_preferences :: "UserPreferences option"

text \<open>\<open>Partial<User>\<close> and \<open>Partial<UserPreferences>\<close>: an absent key is \<open>None\<close>.\<close>

record UserUpdates =
  up_id :: "string option"
  up_email :: "string option"
  up_username :: "string option"
  up_walletAddress :: "string option"
  up_avatar :: "string option"
  up_createdAt :: "int option"
  up_updatedAt :: "int option"
  up_preferences :: "UserPreferences option"

record PreferencesUpdates =
  pu_theme :: "Theme option"
  pu_notifications :: "bool option"
  pu_language :: "string option"
  pu_newsletter :: "bool option"

record UserState =
  user :: "User option"
  isAuthenticated :: bool
  isLoading :: bool
  error :: "string option"

text \<open>
  The value under a key of a parsed body, as far as \<open>data.message || fallback\<close> and
  \<open>new Error(...)\<close> look at it: the key is absent, or holds a string, or holds another
  JSON value, of which they use whether it is truthy and the string it converts to
  (\<open>[]\<close> is truthy and converts to the empty string, \<open>{}\<close> is truthy and converts to
  \<open>[object Object]\<close>, \<open>0\<close> is falsy).
\<close>

datatype js_value = Undefined | Str string | NonString bool string

text \<open>
  What \<open>fetch\<close> and \<open>response.json()\<close> give a session action.  The session API answers a
  non-2xx status with a body that may carry a \<open>message\<close>, and a 2xx status with a body
  carrying \<open>user\<close>.  \<open>JsonRejects\<close> is a body whose reading throws: \<open>response.json()\<close>
  rejects because the body is not JSON, or the body is \<open>null\<close> and reading its key throws.
\<close>

datatype 'a json_read = JsonRejects js_throw | Json 'a

datatype session_response =
    NotOk "js_value json_read"
  | Ok "UserPayload json_read"

datatype session_fetch = FetchRejects js_throw | FetchResolves session_response

subsection \<open>Constants and setters\<close>

definition defaultPreferences :: UserPreferences where
  "defaultPreferences =
     \<lparr>theme = System, notifications = True, language = ''en'', newsletter = False\<rparr>"

definition initialUserState :: UserState where
  "initialUserState = \<lparr>user = None, isAuthenticated = False, isLoading = False, error = None\<rparr>"

definition setUser :: "User option \<Rightarrow> UserState \<Rightarrow> UserState" where
  "setUser u s = s\<lparr>user := u, isAuthenticated := (u \<noteq> None), error := None\<rparr>"

text \<open>\<open>{ ...state.user, ...updates }\<close>\<close>

definition merge_user :: "User \<Rightarrow> UserUpdates \<Rightarrow> User" where
  "merge_user usr u =
     usr\<lparr>user_id := (case up_id u of None \<Rightarrow> user_id usr | Some v \<Rightarrow> v),
         email := (case up_email u of None \<Rightarrow> email usr | Some v \<Rightarrow> v),
         username := (case up_username u of None \<Rightarrow> username usr | Some v \<Rightarrow> v),
         walletAddress :=
           (case up_walletAddress u of None \<Rightarrow> walletAddress usr | Some v \<Rightarrow> Some v),
         avatar := (case up_avatar u of None \<Rightarrow> avatar usr | Some v \<Rightarrow> Some v),
         createdAt := (case up_createdAt u of None \<Rightarrow> createdAt usr | Some v \<Rightarrow> v),
         updatedAt := (case up_updatedAt u of None \<Rightarrow> updatedAt usr | Some v \<Rightarrow> v),
         preferences := (case up_preferences u of None \<Rightarrow> preferences usr | Some v \<Rightarrow> v)\<rparr>"

text \<open>\<open>{ ...state.user.preferences, ...preferences }\<close>\<close>

definition merge_preferences :: "UserPreferences \<Rightarrow> PreferencesUpdates \<Rightarrow> UserPreferences" where
  "merge_preferences pr u =
     pr\<lparr>theme := (case pu_theme u of None \<Rightarrow> theme pr | Some v \<Rightarrow> v),
        notifications := (case pu_notifications u of None \<Rightarrow> notifications pr | Some v \<Rightarrow> v),
        language := (case pu_language u of None \<Rightarrow> language pr | Some v \<Rightarrow> v),
        newsletter := (case pu_newsletter u of None \<Rightarrow> newsletter pr | Some v \<Rightarrow> v)\<rparr>"

text \<open>\<open>now\<close> is the value of \<open>new Date()\<close> at the call.\<close>

definition updateUser :: "UserUpdates \<Rightarrow> int \<Rightarrow> UserState \<Rightarrow> UserState" where
  "updateUser updates now s =
     s\<lparr>user := (case user s of
                  Some usr \<Rightarrow> Some ((merge_user usr updates)\<lparr>updatedAt := now\<rparr>)
                | None \<Rightarrow> None)\<rparr>"

definition updatePreferences :: "PreferencesUpdates \<Rightarrow> int \<Rightarrow> UserState \<Rightarrow> UserState" where
  "updatePreferences prefs now s =
     s\<lparr>user := (case user s of
                  Some usr \<Rightarrow>
                    Some (usr\<lparr>preferences := merge_preferences (preferences usr) prefs,
                               updatedAt := now\<rparr>)
                | None \<Rightarrow> None)\<rparr>"

definition setLoading :: "bool \<Rightarrow> UserState \<Rightarrow> UserState" where
  "setLoading b s = s\<lparr>isLoading := b\<rparr>"

definition setError :: "string option \<Rightarrow> UserState \<Rightarrow> UserState" where
  "setError e s = s\<lparr>error := e\<rparr>"

definition logout :: "UserState \<Rightarrow> UserState" where
  "logout s = s\<lparr>user := None, isAuthenticated := False, error := None\<rparr>"

subsection \<open>Login and signup\<close>

text \<open>\<open>{ ...user, preferences: prefs }\<close>\<close>

definition with_preferences :: "UserPayload \<Rightarrow> UserPreferences \<Rightarrow> User" where
  "with_preferences p prefs =
     \<lparr>user_id = p_id p, email = p_email p, username = p_username p,
      walletAddress = p_walletAddress p, avatar = p_avatar p,
      createdAt = p_createdAt p, updatedAt = p_updatedAt p, preferences = prefs\<rparr>"

text \<open>
  The message of \<open>new Error(data.message || fallback)\<close>: the empty string is falsy, and a
  value that is not a string is converted to one.
\<close>

definition message_or :: "js_value \<Rightarrow> string \<Rightarrow> string" where
  "message_or m fallback =
     (case m of
        Undefined \<Rightarrow> fallback
      | Str t \<Rightarrow> if t = [] then fallback else t
      | NonString is_truthy shown \<Rightarrow> if is_truthy then shown else fallback)"

text \<open>
  The \<open>catch\<close> block of \<open>login\<close> and \<open>signup\<close>: it records the message and re-throws.
  The second component of the result is the value thrown to the caller.
\<close>

definition auth_catch :: "string \<Rightarrow> js_throw \<Rightarrow> UserState \<Rightarrow> UserState \<times> js_throw option" where
  "auth_catch fallback e s =
     (s\<lparr>error := Some (case e of Error n m \<Rightarrow> m | NotAnError \<Rightarrow> fallback),
        isLoading := False\<rparr>,
      Some e)"

definition login ::
  "string \<Rightarrow> string \<Rightarrow> session_fetch \<Rightarrow> UserState \<Rightarrow> UserState \<times> js_throw option" where
  "login email_arg password fetched s0 =
     (let s = s0\<lparr>isLoading := True, error := None\<rparr> in
      case fetched of
        FetchRejects e \<Rightarrow> auth_catch ''Login failed'' e s
      | FetchResolves (NotOk body) \<Rightarrow>
          (case body of
             JsonRejects e \<Rightarrow> auth_catch ''Login failed'' e s
           | Json msg \<Rightarrow>
               auth_catch ''Login failed'' (Error ''Error'' (message_or msg ''Login failed'')) s)
      | FetchResolves (Ok body) \<Rightarrow>
          (case body of
             JsonRejects e \<Rightarrow> auth_catch ''Login failed'' e s
           | Json p \<Rightarrow>
               (s\<lparr>user := Some (with_preferences p
                          (case p_preferences p of Some pr \<Rightarrow> pr | None \<Rightarrow> defaultPreferences)),
                  isAuthenticated := True,
                  isLoading := False\<rparr>,
                None)))"

definition signup ::
  "string \<Rightarrow> string \<Rightarrow> string \<Rightarrow> session_fetch \<Rightarrow> UserState \<Rightarrow> UserState \<times> js_throw option" where
  "signup email_arg password username_arg fetched s0 =
     (let s = s0\<lparr>isLoading := True, error := None\<rparr> in
      case fetched of
        FetchRejects e \<Rightarrow> auth_catch ''Signup failed'' e s
      | FetchResolves (NotOk body) \<Rightarrow>
          (case body of
             JsonRejects e \<Rightarrow> auth_catch ''Signup failed'' e s
           | Json msg \<Rightarrow>
               auth_catch ''Signup failed'' (Error ''Error'' (message_or msg ''Signup failed'')) s)
      | FetchResolves (Ok body) \<Rightarrow>
          (case body of
             JsonRejects e \<Rightarrow> auth_catch ''Signup failed'' e s
           | Json p \<Rightarrow>
               (s\<lparr>user := Some (with_preferences p defaultPreferences),
                  isAuthenticated := True,
                  isLoading := False\<rparr>,
                None)))"

text \<open>Sample values for the closed examples.\<close>

definition sample_payload :: UserPayload where
  "sample_payload = \<lparr>p_id = ''1'', p_email = ''u@x.com'', p_username = ''bob'',
     p_walletAddress = None, p_avatar = None, p_createdAt = 0, p_updatedAt = 0,
     p_preferences = None\<rparr>"

definition dark_preferences :: UserPreferences where
  "dark_preferences =
     \<lparr>theme = Dark, notifications = False, language = ''fr'', newsletter = True\<rparr>"

section \<open>The streaming chat hook (\<open>hooks/useAI.ts\<close>)\<close>

subsection \<open>Types\<close>

datatype Role = UserRole | AssistantRole | SystemRole

record AIMessageMetadata =
  model :: string
  tokens :: nat
  latency :: nat
  sources :: "string list option"

record AIMessage =
  msg_id :: string
  role :: Role
  content :: string
  timestamp :: int
  metadata :: "AIMessageMetadata option"

text \<open>
  \<open>AIStreamChunk\<close> as a parsed payload presents it: a key the payload lacks reads as
  \<open>undefined\<close> (\<open>None\<close>).
\<close>

record AIStreamChunk =
  chunk_content :: "string option"
  chunk_done :: "bool option"
  chunk_error :: "string option"

text \<open>
  \<open>JSON.parse\<close> is the platform's and is a parameter of the model.  \<open>None\<close> stands for a
  payload on which the \<open>try\<close> block throws before it reads a field (the text is not JSON).
\<close>

type_synonym json_parse = "string \<Rightarrow> AIStreamChunk option"

text \<open>
  The hook's React state, its \<open>abortControllerRef\<close>, and the abort controllers themselves:
  a controller is the number under which it was created, \<open>allocated\<close> counts the
  controllers created so far and \<open>aborted\<close> lists those whose \<open>abort()\<close> has been called.
\<close>

record Conversation =
  messages :: "AIMessage list"
  ai_isLoading :: bool
  isStreaming :: bool
  ai_error :: "string option"
  currentResponse :: string
  abortControllerRef :: "nat option"
  aborted :: "nat list"
  allocated :: nat

text \<open>The local variables of one \<open>sendMessage\<close> call that live across its awaits.\<close>

record Call =
  signal :: nat
  fullResponse :: string

definition initialConversation :: Conversation where
  "initialConversation = \<lparr>messages = [], ai_isLoading = False, isStreaming = False,
     ai_error = None, currentResponse = [], abortControllerRef = None,
     aborted = [], allocated = 0\<rparr>"

subsection \<open>String operations\<close>

text \<open>
  Characters are the code units below 256; of JavaScript's white space these are tab, line
  feed, vertical tab, form feed, carriage return, space and no-break space.
\<close>

definition is_space :: "char \<Rightarrow> bool" where
  "is_space c = (c \<in> set [CHR 0x09, CHR 0x0A, CHR 0x0B, CHR 0x0C, CHR 0x0D, CHR 0x20, CHR 0xA0])"

text \<open>\<open>s.trim()\<close>\<close>

definition js_trim :: "string \<Rightarrow> string" where
  "js_trim s = rev (dropWhile is_space (rev (dropWhile is_space s)))"

text \<open>\<open>s.split('\n')\<close>: one more piece than there are line feeds.\<close>

fun split_lines :: "string \<Rightarrow> string list" where
  "split_lines [] = [[]]"
| "split_lines (c # cs) =
     (if c = CHR 0x0A then [] # split_lines cs
      else (case split_lines cs of
              piece # pieces \<Rightarrow> (c # piece) # pieces
            | [] \<Rightarrow> [[c]]))"

text \<open>\<open>s.startsWith(p)\<close>\<close>

definition starts_with :: "string \<Rightarrow> string \<Rightarrow> bool" where
  "starts_with p s = (take (length p) s = p)"

text \<open>A string-valued key in a condition: \<open>undefined\<close> and the empty string are falsy.\<close>

definition js_text :: "string option \<Rightarrow> string" where
  "js_text v = (case v of None \<Rightarrow> [] | Some t \<Rightarrow> t)"

definition truthy :: "string option \<Rightarrow> bool" where
  "truthy v = (js_text v \<noteq> [])"

subsection \<open>Consuming the stream\<close>

text \<open>
  The body of the \<open>for\<close> loop over the lines of one read.  The pair is \<open>fullResponse\<close> and
  the value of \<open>currentResponse\<close>.  An \<open>Error\<close> thrown for a chunk's \<open>error\<close> key is thrown
  inside the \<open>try\<close> and so lands in the same \<open>catch\<close> as a payload that fails to parse.
\<close>

definition process_line :: "json_parse \<Rightarrow> string \<times> string \<Rightarrow> string \<Rightarrow> string \<times> string" where
  "process_line parse acc line =
     (if starts_with ''data: '' line then
        (let data = drop 6 line in
         if data = ''[DONE]'' then acc
         else
           (case parse data of
              None \<Rightarrow> (fst acc @ data, fst acc @ data)
            | Some parsed \<Rightarrow>
                (let acc1 = (if truthy (chunk_content parsed)
                             then (fst acc @ js_text (chunk_content parsed),
                                   fst acc @ js_text (chunk_content parsed))
                             else acc)
                 in if truthy (chunk_error parsed)
                    then (fst acc1 @ data, fst acc1 @ data)
                    else acc1)))
      else acc)"

text \<open>One decoded read: \<open>chunk.split('\n').filter((line) => line.trim() !== '')\<close>, then the loop.\<close>

definition process_read :: "json_parse \<Rightarrow> string \<times> string \<Rightarrow> string \<Rightarrow> string \<times> string" where
  "process_read parse acc chunk =
     foldl (process_line parse) acc (filter (\<lambda>line. js_trim line \<noteq> []) (split_lines chunk))"

subsection \<open>The parts of \<open>sendMessage\<close> between its awaits\<close>

text \<open>
  Up to the \<open>fetch\<close>.  \<open>new_id\<close> and \<open>now\<close> are what \<open>generateId()\<close> and \<open>new Date()\<close>
  return.  No result call means the function returned at once (blank content).
\<close>

definition sendMessage_start ::
  "string \<Rightarrow> string \<Rightarrow> int \<Rightarrow> Conversation \<Rightarrow> Conversation \<times> Call option" where
  "sendMessage_start content_arg new_id now s =
     (if js_trim content_arg = [] then (s, None)
      else
        (s\<lparr>ai_error := None,
           ai_isLoading := True,
           messages := messages s @
             [\<lparr>msg_id = new_id, role = UserRole, content = js_trim content_arg,
               timestamp = now, metadata = None\<rparr>],
           abortControllerRef := Some (allocated s),
           allocated := Suc (allocated s)\<rparr>,
         Some \<lparr>signal = allocated s, fullResponse = []\<rparr>))"

definition sendMessage_finally :: "Conversation \<Rightarrow> Conversation" where
  "sendMessage_finally s = s\<lparr>ai_isLoading := False, isStreaming := False, abortControllerRef := None\<rparr>"

definition sendMessage_catch :: "js_throw \<Rightarrow> Conversation \<Rightarrow> Conversation" where
  "sendMessage_catch e s =
     sendMessage_finally
       (s\<lparr>ai_error := Some
            (case e of
               Error n m \<Rightarrow> if n = ''AbortError'' then ''Request cancelled'' else m
             | NotAnError \<Rightarrow> ''Failed to get AI response'')\<rparr>)"

text \<open>
  After the \<open>fetch\<close> resolves, up to the first read.  A call is returned when the loop over
  the body starts.
\<close>

definition sendMessage_response ::
  "bool \<Rightarrow> string \<Rightarrow> bool \<Rightarrow> Call \<Rightarrow> Conversation \<Rightarrow> Conversation \<times> Call option" where
  "sendMessage_response ok statusText has_body c s =
     (if \<not> ok then (sendMessage_catch (Error ''Error'' (''API error: '' @ statusText)) s, None)
      else if has_body then
        (s\<lparr>isStreaming := True, currentResponse := []\<rparr>, Some (c\<lparr>fullResponse := []\<rparr>))
      else (sendMessage_finally s, None))"

text \<open>One iteration of the \<open>while\<close> loop whose read is not \<open>done\<close>.\<close>

definition sendMessage_read ::
  "json_parse \<Rightarrow> string \<Rightarrow> Call \<Rightarrow> Conversation \<Rightarrow> Conversation \<times> Call" where
  "sendMessage_read parse chunk c s =
     (let acc = process_read parse (fullResponse c, currentResponse s) chunk
      in (s\<lparr>currentResponse := snd acc\<rparr>, c\<lparr>fullResponse := fst acc\<rparr>))"

text \<open>The read that is \<open>done\<close>: the assistant message, then \<open>finally\<close>.\<close>

definition sendMessage_done ::
  "string \<Rightarrow> string \<Rightarrow> int \<Rightarrow> Call \<Rightarrow> Conversation \<Rightarrow> Conversation" where
  "sendMessage_done model_name new_id now c s =
     sendMessage_finally
       (s\<lparr>messages := messages s @
            [\<lparr>msg_id = new_id, role = AssistantRole, content = fullResponse c,
              timestamp = now,
              metadata = Some \<lparr>model = model_name, tokens = 0, latency = 0, sources = None\<rparr>\<rparr>],
          currentResponse := []\<rparr>)"

definition clearMessages :: "Conversation \<Rightarrow> Conversation" where
  "clearMessages s = s\<lparr>messages := [], ai_error := None, currentResponse := []\<rparr>"


subsection \<open>One call of \<open>sendMessage\<close>, run to its end\<close>

text \<open>
  What the network gives one call: the \<open>fetch\<close> rejects, or resolves with \<open>ok\<close>,
  \<open>statusText\<close> and possibly a body; a body is the decoded reads in order and how the
  stream ends (the \<open>done\<close> read, or a read that rejects).
\<close>

datatype stream_end = EndOfStream | ReadRejects js_throw

datatype chat_fetch =
    ChatFetchRejects js_throw
  | ChatResponse bool string "(string list \<times> stream_end) option"

fun read_all :: "json_parse \<Rightarrow> string list \<Rightarrow> Call \<Rightarrow> Conversation \<Rightarrow> Conversation \<times> Call" where
  "read_all parse [] c s = (s, c)"
| "read_all parse (chunk # chunks) c s =
     (case sendMessage_read parse chunk c s of (s', c') \<Rightarrow> read_all parse chunks c' s')"

text \<open>
  \<open>ids\<close> are the two results of \<open>generateId()\<close> and \<open>dates\<close> the two of \<open>new Date()\<close>, for
  the user message and the assistant message.
\<close>

definition sendMessage ::
  "json_parse \<Rightarrow> string \<Rightarrow> string \<times> string \<Rightarrow> int \<times> int \<Rightarrow> string \<Rightarrow> chat_fetch \<Rightarrow>
   Conversation \<Rightarrow> Conversation" where
  "sendMessage parse model_name ids dates content_arg fetched s =
     (case sendMessage_start content_arg (fst ids) (fst dates) s of
        (s1, None) \<Rightarrow> s1
      | (s1, Some c) \<Rightarrow>
          (case fetched of
             ChatFetchRejects e \<Rightarrow> sendMessage_catch e s1
           | ChatResponse ok statusText None \<Rightarrow>
               fst (sendMessage_response ok statusText False c s1)
           | ChatResponse ok statusText (Some (chunks, ending)) \<Rightarrow>
               (case sendMessage_response ok statusText True c s1 of
                  (s2, None) \<Rightarrow> s2
                | (s2, Some c2) \<Rightarrow>
                    (case read_all parse chunks c2 s2 of
                       (s3, c3) \<Rightarrow>
                         (case ending of
                            EndOfStream \<Rightarrow> sendMessage_done model_name (snd ids) (snd dates) c3 s3
                          | ReadRejects e \<Rightarrow> sendMessage_catch e s3)))))"

subsection \<open>Overlapping calls\<close>

text \<open>
  The hook with the calls that are suspended at an await, each under the number of the
  controller it created.  An event is one turn of the event loop: a call of \<open>sendMessage\<close>
  or \<open>stopStreaming\<close>, or the settling of the promise one suspended call awaits.  An
  awaited \<open>fetch\<close> or read whose signal has been aborted rejects with an \<open>AbortError\<close>,
  whatever else would have arrived.
\<close>

datatype phase = AwaitingResponse | ReadingStream

record Hook =
  conv :: Conversation
  calls :: "nat \<Rightarrow> (phase \<times> Call) option"










subsection \<open>Streams as the specification describes them\<close>

text \<open>
  A line of the event stream: a marked line whose payload parses to a chunk, a marked line
  whose payload does not parse, the end-of-stream sentinel, or a line without the marker.
  \<open>line_text\<close> is the line on the wire and \<open>line_payload\<close> the text the specification
  says it adds to the answer.
\<close>

datatype stream_line =
    ChunkLine string AIStreamChunk
  | RawLine string
  | Sentinel
  | Unmarked string

fun line_text :: "stream_line \<Rightarrow> string" where
  "line_text (ChunkLine p ch) = ''data: '' @ p"
| "line_text (RawLine p) = ''data: '' @ p"
| "line_text Sentinel = ''data: [DONE]''"
| "line_text (Unmarked u) = u"

fun line_payload :: "stream_line \<Rightarrow> string" where
  "line_payload (ChunkLine p ch) = js_text (chunk_content ch)"
| "line_payload (RawLine p) = p"
| "line_payload Sentinel = []"
| "line_payload (Unmarked u) = []"

text \<open>
  The line is what it is said to be under the parser, holds no line feed, and a chunk
  carries no error.
\<close>

fun well_formed_line :: "json_parse \<Rightarrow> stream_line \<Rightarrow> bool" where
  "well_formed_line parse (ChunkLine p ch) =
     (CHR 0x0A \<notin> set p \<and> p \<noteq> ''[DONE]'' \<and> parse p = Some ch \<and> \<not> truthy (chunk_error ch))"
| "well_formed_line parse (RawLine p) =
     (CHR 0x0A \<notin> set p \<and> p \<noteq> ''[DONE]'' \<and> parse p = None)"
| "well_formed_line parse Sentinel = True"
| "well_formed_line parse (Unmarked u) = (CHR 0x0A \<notin> set u \<and> \<not> starts_with ''data: '' u)"

text \<open>The text of a run of whole lines, each ended by a line feed.\<close>

definition wire_text :: "stream_line list \<Rightarrow> string" where
  "wire_text ls = concat (map (\<lambda>l. line_text l @ [CHR 0x0A]) ls)"

text \<open>
  \<open>JSON.parse\<close> on the payloads of the closed examples; every other payload that occurs in
  them is not JSON text.
\<close>

definition parse_sample :: json_parse where
  \<open>parse_sample p =
     (if p = ''{"content":"He"}''
        then Some \<lparr>chunk_content = Some ''He'', chunk_done = None, chunk_error = None\<rparr>
      else if p = ''{"content":"llo"}''
        then Some \<lparr>chunk_content = Some ''llo'', chunk_done = None, chunk_error = None\<rparr>
      else if p = ''{"error":"boom"}''
        then Some \<lparr>chunk_content = None, chunk_done = None, chunk_error = Some ''boom''\<rparr>
      else None)\<close>



section \<open>Properties of the chain store\<close>

text \<open>
  \<^bold>\<open>C10.\<close>  \<open>disconnectWallet\<close> sets the wallet to the initial tuple (status
  \<open>disconnected\<close>, every other field null, balance zero) and \<open>currentChain\<close> to null, and
  leaves the transaction list, the pending list, \<open>isWalletModalOpen\<close> and
  \<open>isChainSwitching\<close> as they were.
\<close>

theorem disconnectWallet_frame:
  "wallet (disconnectWallet s) = initialWalletState \<and>
   wallet (disconnectWallet s) =
     \<lparr>status = Disconnected, address = None, chainId = None, balance = 0,
      ensName = None, ensAvatar = None\<rparr> \<and>
   currentChain (disconnectWallet s) = None \<and>
   transactions (disconnectWallet s) = transactions s \<and>
   pendingTransactions (disconnectWallet s) = pendingTransactions s \<and>
   isWalletModalOpen (disconnectWallet s) = isWalletModalOpen s \<and>
   isChainSwitching (disconnectWallet s) = isChainSwitching s \<and>
   supportedChains (disconnectWallet s) = supportedChains s"
  by (simp add: disconnectWallet_def initialWalletState_def)

subsection \<open>Switching the chain\<close>

lemma persist_error_cases:
  "persist_error s = (if transactions s = [] then None else Some bigint_error)"
  by (simp add: persist_error_def persisted_slice_def)

text \<open>
  With nothing to persist, \<open>switchChain\<close> raises the flag, and then either sets
  \<open>chainId\<close> and \<open>currentChain\<close> and lowers the flag, or lowers the flag, leaves the
  rest as it was and re-throws.  With a transaction in the list, the first \<open>set\<close> throws:
  the call rejects with the \<open>TypeError\<close> and the flag stays raised.
\<close>

lemma switchChain_when_nothing_persisted:
  assumes "transactions s = []"
  shows "hd (fst (switchChain_run r c s)) = s\<lparr>isChainSwitching := True\<rparr> \<and>
         switchChain Resolved c s =
           (s\<lparr>wallet := (wallet s)\<lparr>chainId := Some c\<rparr>,
              currentChain := SUPPORTED_CHAINS c,
              isChainSwitching := False\<rparr>, None) \<and>
         switchChain (Rejected e) c s = (s\<lparr>isChainSwitching := False\<rparr>, Some e)"
  using assms
  by (cases r)
     (simp_all add: switchChain_def switchChain_run_def switchChain_start_def
        switchChain_resolved_def switchChain_rejected_def persist_error_cases)

lemma switchChain_when_persist_throws:
  assumes "transactions s \<noteq> []"
  shows "switchChain r c s = (s\<lparr>isChainSwitching := True\<rparr>, Some bigint_error)"
  using assms
  by (simp add: switchChain_def switchChain_run_def switchChain_start_def persist_error_cases)

lemma supported_chain_entries:
  "SUPPORTED_CHAINS 1 = Some chain_ethereum \<and> chain_id chain_ethereum = 1 \<and>
   SUPPORTED_CHAINS 137 = Some chain_polygon \<and> chain_id chain_polygon = 137 \<and>
   SUPPORTED_CHAINS 42161 = Some chain_arbitrum \<and> chain_id chain_arbitrum = 42161 \<and>
   SUPPORTED_CHAINS 10 = Some chain_optimism \<and> chain_id chain_optimism = 10 \<and>
   SUPPORTED_CHAINS 8453 = Some chain_base \<and> chain_id chain_base = 8453"
  by (simp add: SUPPORTED_CHAINS_def chain_ethereum_def chain_polygon_def chain_arbitrum_def
      chain_optimism_def chain_base_def)

text \<open>
  \<^bold>\<open>C8, evaluated.\<close>  \<open>switchChain(137)\<close> on a store that holds one transaction: the
  \<open>set\<close> that raises \<open>isChainSwitching\<close> commits and then throws while persisting, outside
  the \<open>try\<close>.  Whether the awaited step would resolve or reject, the call rejects with the
  \<open>TypeError\<close>, the flag is left raised, and \<open>chainId\<close> and \<open>currentChain\<close> stay null.
\<close>

theorem switchChain_rejects_with_flag_raised:
  "switchChain Resolved 137 (addTransaction sample_tx initialChainState)
   = ((addTransaction sample_tx initialChainState)\<lparr>isChainSwitching := True\<rparr>,
      Some (Error ''TypeError'' ''Do not know how to serialize a BigInt'')) \<and>
   switchChain (Rejected (Error ''Error'' ''User rejected'')) 137
     (addTransaction sample_tx initialChainState)
   = ((addTransaction sample_tx initialChainState)\<lparr>isChainSwitching := True\<rparr>,
      Some (Error ''TypeError'' ''Do not know how to serialize a BigInt'')) \<and>
   isChainSwitching (fst (switchChain Resolved 137 (addTransaction sample_tx initialChainState)))
     = True \<and>
   chainId (wallet (fst (switchChain Resolved 137 (addTransaction sample_tx initialChainState))))
     = None \<and>
   currentChain (fst (switchChain Resolved 137 (addTransaction sample_tx initialChainState)))
     = None \<and>
   transactions (addTransaction sample_tx initialChainState) = [sample_tx]"
proof -
  have a: "transactions (addTransaction sample_tx initialChainState) = [sample_tx]"
    by (simp add: addTransaction_def initialChainState_def)
  then have b: "transactions (addTransaction sample_tx initialChainState) \<noteq> []"
    by simp
  have c: "chainId (wallet (addTransaction sample_tx initialChainState)) = None"
    by (simp add: addTransaction_def initialChainState_def initialWalletState_def)
  have d: "currentChain (addTransaction sample_tx initialChainState) = None"
    by (simp add: addTransaction_def initialChainState_def)
  show ?thesis
    by (simp add: switchChain_when_persist_throws [OF b] a c d bigint_error_def)
qed

text \<open>The same call on the initial store, where nothing is persisted.\<close>

lemma switchChain_on_initial_store:
  "switchChain Resolved 137 initialChainState
   = (initialChainState\<lparr>wallet := initialWalletState\<lparr>chainId := Some 137\<rparr>,
        currentChain := Some chain_polygon\<rparr>, None) \<and>
   switchChain (Rejected (Error ''Error'' ''User rejected'')) 137 initialChainState
   = (initialChainState, Some (Error ''Error'' ''User rejected''))"
proof -
  have a: "transactions initialChainState = []"
    by (simp add: initialChainState_def)
  have b: "initialChainState\<lparr>isChainSwitching := False\<rparr> = initialChainState"
    by (simp add: initialChainState_def)
  have c: "wallet initialChainState = initialWalletState"
    by (simp add: initialChainState_def)
  show ?thesis
    using switchChain_when_nothing_persisted [OF a, of Resolved 137]
    by (simp add: b c supported_chain_entries)
       (simp add: initialChainState_def)
qed

subsection \<open>The address rule\<close>

lemmas chain_defs = setWalletStatus_def setWalletAddress_def setChainId_def setBalance_def
  setEnsName_def setEnsAvatar_def connectWallet_def connectWallet_start_def
  connectWallet_resolved_def connectWallet_rejected_def disconnectWallet_def
  switchChain_def switchChain_start_def switchChain_resolved_def switchChain_rejected_def
  addTransaction_def updateTransaction_def clearTransactions_def setWalletModalOpen_def

lemma connectWallet_run_keeps_address_rule:
  assumes "address (wallet s) = None"
  shows "list_all address_only_when_connected (fst (connectWallet_run r s))"
  using assms
  by (cases r)
     (simp_all add: connectWallet_run_def Let_def address_only_when_connected_def
        connectWallet_start_def connectWallet_resolved_def connectWallet_rejected_def
        persist_error_cases)

lemma switchChain_run_keeps_address_rule:
  assumes "address_only_when_connected s"
  shows "list_all address_only_when_connected (fst (switchChain_run r c s))"
  using assms
  by (cases r)
     (simp_all add: switchChain_run_def Let_def address_only_when_connected_def
        switchChain_start_def switchChain_resolved_def switchChain_rejected_def
        persist_error_cases)

lemma commits_keep_address_rule:
  assumes "address_only_when_connected s" and "keeps_address_rule c s"
  shows "list_all address_only_when_connected (commits c s)"
proof (cases c)
  case (ConnectWallet r x)
  then show ?thesis using assms(2) by (simp add: connectWallet_run_keeps_address_rule)
next
  case (SwitchChain r x)
  then show ?thesis using assms(1) by (simp add: switchChain_run_keeps_address_rule)
qed (use assms in \<open>auto simp: address_only_when_connected_def chain_defs initialWalletState_def\<close>)

lemma connectWallet_run_commits: "fst (connectWallet_run r s) \<noteq> []"
  by (cases r) (simp_all add: connectWallet_run_def Let_def split: option.splits)

lemma switchChain_run_commits: "fst (switchChain_run r c s) \<noteq> []"
  by (cases r) (simp_all add: switchChain_run_def Let_def split: option.splits)

lemma perform_in_commits: "perform c s \<in> set (commits c s)"
  by (cases c)
     (simp_all add: perform_def connectWallet_run_commits switchChain_run_commits)

text \<open>
  \<^bold>\<open>C5, as the store has it.\<close>  Starting from a state in which a wallet that is not
  connected has no address, every state the store passes through keeps that rule while each
  call is one that keeps it: any call other than the two setters and \<open>connectWallet\<close>;
  \<open>setWalletStatus\<close> with \<open>connected\<close> or while the address is null; \<open>setWalletAddress\<close>
  with null or while the wallet is connected; \<open>connectWallet\<close>, either branch, called while
  the address is null.  The states include the \<open>connecting\<close> state inside \<open>connectWallet\<close>.
\<close>

theorem address_rule_along_calls:
  "address_only_when_connected s \<Longrightarrow> all_keep_address_rule cs s \<Longrightarrow>
   list_all address_only_when_connected (visited cs s)"
proof (induction cs arbitrary: s)
  case Nil
  then show ?case by simp
next
  case (Cons c cs)
  have here: "list_all address_only_when_connected (commits c s)"
    using Cons.prems by (simp add: commits_keep_address_rule)
  then have "address_only_when_connected (perform c s)"
    using perform_in_commits [of c s] by (simp add: list_all_iff)
  then have "list_all address_only_when_connected (visited cs (perform c s))"
    using Cons.IH Cons.prems by simp
  with here show ?case by simp
qed

theorem address_rule_along_calls_witness:
  "address_only_when_connected initialChainState \<and>
   all_keep_address_rule
     [ConnectWallet (Rejected (Error ''Error'' ''User rejected'')) ''metamask'',
      ConnectWallet Resolved ''metamask'', SwitchChain Resolved 137, DisconnectWallet,
      AddTransaction sample_tx, ConnectWallet Resolved ''metamask'']
     initialChainState \<and>
   list_all address_only_when_connected
     (visited
        [ConnectWallet (Rejected (Error ''Error'' ''User rejected'')) ''metamask'',
         ConnectWallet Resolved ''metamask'', SwitchChain Resolved 137, DisconnectWallet,
         AddTransaction sample_tx, ConnectWallet Resolved ''metamask'']
        initialChainState) \<and>
   map (\<lambda>s. (status (wallet s), address (wallet s)))
     (visited
        [ConnectWallet (Rejected (Error ''Error'' ''User rejected'')) ''metamask'',
         ConnectWallet Resolved ''metamask'', SwitchChain Resolved 137, DisconnectWallet,
         AddTransaction sample_tx, ConnectWallet Resolved ''metamask'']
        initialChainState)
   = [(Connecting, None), (WalletError, None),
      (Connecting, None), (Connected, Some ''0x1234567890123456789012345678901234567890''),
      (Connected, Some ''0x1234567890123456789012345678901234567890''),
      (Connected, Some ''0x1234567890123456789012345678901234567890''),
      (Disconnected, None),
      (Disconnected, None),
      (Connecting, None)]"
proof -
  let ?calls = "[ConnectWallet (Rejected (Error ''Error'' ''User rejected'')) ''metamask'',
      ConnectWallet Resolved ''metamask'', SwitchChain Resolved 137, DisconnectWallet,
      AddTransaction sample_tx, ConnectWallet Resolved ''metamask'']"
  have a: "address_only_when_connected initialChainState"
    by (simp add: address_only_when_connected_def initialChainState_def initialWalletState_def)
  have b: "all_keep_address_rule ?calls initialChainState"
    by (simp add: perform_def chain_defs connectWallet_run_def switchChain_run_def
        persist_error_cases initialChainState_def initialWalletState_def Let_def)
  have c: "map (\<lambda>s. (status (wallet s), address (wallet s))) (visited ?calls initialChainState)
   = [(Connecting, None), (WalletError, None),
      (Connecting, None), (Connected, Some ''0x1234567890123456789012345678901234567890''),
      (Connected, Some ''0x1234567890123456789012345678901234567890''),
      (Connected, Some ''0x1234567890123456789012345678901234567890''),
      (Disconnected, None),
      (Disconnected, None),
      (Connecting, None)]"
    by (simp add: perform_def chain_defs connectWallet_run_def switchChain_run_def
        persist_error_cases initialChainState_def initialWalletState_def Let_def)
  show ?thesis using a b c address_rule_along_calls [OF a b] by simp
qed

text \<open>
  \<^bold>\<open>C5, as stated, fails.\<close>  \<open>setWalletAddress\<close> on the initial store gives a
  disconnected wallet with an address.
\<close>

theorem setWalletAddress_breaks_address_rule:
  "\<not> address_only_when_connected
       (perform (SetWalletAddress (Some ''0xabc'')) initialChainState)"
  by (simp add: perform_def address_only_when_connected_def setWalletAddress_def
      initialChainState_def initialWalletState_def)

subsection \<open>The pending view\<close>

lemma status_merge_updates:
  "tx_status (merge_updates tx u) = (case u_status u of None \<Rightarrow> tx_status tx | Some v \<Rightarrow> v)"
  by (simp add: merge_updates_def)

lemma filter_pending_untouched:
  "list_all (\<lambda>tx. tx_hash tx \<noteq> h \<or> tx_status tx \<noteq> Pending) txs \<Longrightarrow> u_status u = None \<Longrightarrow>
   filter (\<lambda>tx. tx_status tx = Pending)
     (map (\<lambda>tx. if tx_hash tx = h then merge_updates tx u else tx) txs)
   = filter (\<lambda>tx. tx_status tx = Pending) txs"
  by (induction txs) (auto simp: status_merge_updates)

lemma filter_pending_terminal:
  "leaves_pending u \<Longrightarrow>
   filter (\<lambda>tx. tx_status tx = Pending)
     (map (\<lambda>tx. if tx_hash tx = h then merge_updates tx u else tx) txs)
   = filter (\<lambda>tx. tx_hash tx \<noteq> h) (filter (\<lambda>tx. tx_status tx = Pending) txs)"
proof -
  assume "leaves_pending u"
  then obtain st where st: "u_status u = Some st" "st \<noteq> Pending"
    by (auto simp: leaves_pending_def split: option.splits)
  show ?thesis
    by (induction txs) (simp_all add: status_merge_updates st)
qed

lemma perform_keeps_pending_view:
  assumes "pending_view_exact s" and "keeps_pending_view c s"
  shows "pending_view_exact (perform c s)"
proof (cases c)
  case (AddTransaction tx)
  then show ?thesis using assms
    by (simp add: perform_def pending_view_exact_def addTransaction_def)
next
  case (UpdateTransaction h u)
  show ?thesis
  proof (cases "leaves_pending u")
    case True
    then show ?thesis using assms(1) UpdateTransaction
      by (simp add: perform_def pending_view_exact_def updateTransaction_def
          filter_pending_terminal)
  next
    case False
    then show ?thesis using assms UpdateTransaction
      by (simp add: perform_def pending_view_exact_def updateTransaction_def
          filter_pending_untouched)
  qed
qed (use assms in simp_all)

text \<open>
  \<^bold>\<open>C2, as the store has it.\<close>  If \<open>pendingTransactions\<close> is exactly the pending
  transactions of \<open>transactions\<close> before a sequence of calls, it is so after each call of
  the sequence, provided each call is an \<open>addTransaction\<close>, an \<open>updateTransaction\<close> whose
  updates carry a status other than \<open>pending\<close>, or an \<open>updateTransaction\<close> whose updates
  carry no status and whose hash names no pending transaction.
\<close>

theorem pending_view_along_calls:
  "pending_view_exact s \<Longrightarrow> all_keep_pending_view cs s \<Longrightarrow>
   list_all pending_view_exact (after_each cs s)"
proof (induction cs arbitrary: s)
  case Nil
  then show ?case by simp
next
  case (Cons c cs)
  then show ?case by (simp add: perform_keeps_pending_view)
qed

theorem pending_view_along_calls_witness:
  "pending_view_exact initialChainState \<and>
   all_keep_pending_view
     [AddTransaction sample_tx, UpdateTransaction ''0x1'' (no_updates\<lparr>u_status := Some Confirmed\<rparr>)]
     initialChainState \<and>
   list_all pending_view_exact
     (after_each
        [AddTransaction sample_tx, UpdateTransaction ''0x1'' (no_updates\<lparr>u_status := Some Confirmed\<rparr>)]
        initialChainState) \<and>
   pendingTransactions (last (after_each
        [AddTransaction sample_tx, UpdateTransaction ''0x1'' (no_updates\<lparr>u_status := Some Confirmed\<rparr>)]
        initialChainState)) = [] \<and>
   transactions (last (after_each
        [AddTransaction sample_tx, UpdateTransaction ''0x1'' (no_updates\<lparr>u_status := Some Confirmed\<rparr>)]
        initialChainState)) = [sample_tx\<lparr>tx_status := Confirmed\<rparr>]"
proof -
  have a: "pending_view_exact initialChainState"
    by (simp add: pending_view_exact_def initialChainState_def)
  have b: "all_keep_pending_view
     [AddTransaction sample_tx, UpdateTransaction ''0x1'' (no_updates\<lparr>u_status := Some Confirmed\<rparr>)]
     initialChainState"
    by (simp add: leaves_pending_def no_updates_def)
  have c: "perform (UpdateTransaction ''0x1'' (no_updates\<lparr>u_status := Some Confirmed\<rparr>))
             (perform (AddTransaction sample_tx) initialChainState)
           = initialChainState\<lparr>transactions := [sample_tx\<lparr>tx_status := Confirmed\<rparr>]\<rparr>"
    by (simp add: perform_def addTransaction_def updateTransaction_def leaves_pending_def
        merge_updates_def sample_tx_def no_updates_def initialChainState_def)
  have d: "pendingTransactions initialChainState = []"
    by (simp add: initialChainState_def)
  show ?thesis using a b pending_view_along_calls [OF a b] by (simp add: c d)
qed

text \<open>
  \<^bold>\<open>C2, as stated, fails.\<close>  After \<open>addTransaction\<close> of a pending transaction and an
  \<open>updateTransaction\<close> that changes its value only, the full list holds the new value and
  the pending list the old one.
\<close>

theorem pending_view_diverges:
  "list_all transaction_call
     [AddTransaction sample_tx, UpdateTransaction ''0x1'' (no_updates\<lparr>u_value := Some 2\<rparr>)] \<and>
   \<not> list_all pending_view_exact
       (after_each
          [AddTransaction sample_tx, UpdateTransaction ''0x1'' (no_updates\<lparr>u_value := Some 2\<rparr>)]
          initialChainState)"
  by (simp add: perform_def pending_view_exact_def addTransaction_def updateTransaction_def
      leaves_pending_def merge_updates_def sample_tx_def no_updates_def initialChainState_def)

section \<open>Properties of the user store\<close>

text \<open>
  \<^bold>\<open>C9.\<close>  While \<open>user\<close> is null, \<open>updateUser\<close> and \<open>updatePreferences\<close> return the
  state they were given, whatever the updates and the time: \<open>user\<close> stays null and
  \<open>isAuthenticated\<close>, \<open>isLoading\<close> and \<open>error\<close> keep their values.
\<close>

theorem updates_without_user:
  "user s = None \<Longrightarrow>
   updateUser updates now s = s \<and> updatePreferences prefs now s = s \<and>
   user (updateUser updates now s) = None \<and>
   user (updatePreferences prefs now s) = None \<and>
   isAuthenticated (updateUser updates now s) = isAuthenticated s \<and>
   isAuthenticated (updatePreferences prefs now s) = isAuthenticated s \<and>
   isLoading (updateUser updates now s) = isLoading s \<and>
   isLoading (updatePreferences prefs now s) = isLoading s \<and>
   error (updateUser updates now s) = error s \<and>
   error (updatePreferences prefs now s) = error s"
  by (simp add: updateUser_def updatePreferences_def)

theorem updates_without_user_witness:
  "user initialUserState = None \<and>
   updateUser
     \<lparr>up_id = None, up_email = None, up_username = Some ''bob'', up_walletAddress = None,
      up_avatar = None, up_createdAt = None, up_updatedAt = None,
      up_preferences = Some dark_preferences\<rparr> 5 initialUserState = initialUserState \<and>
   updatePreferences
     \<lparr>pu_theme = Some Dark, pu_notifications = None, pu_language = None,
      pu_newsletter = None\<rparr> 5 initialUserState = initialUserState"
proof -
  have a: "user initialUserState = None"
    by (simp add: initialUserState_def)
  show ?thesis using a updates_without_user [OF a] by simp
qed

text \<open>
  \<^bold>\<open>C6, as the store has it.\<close>  A \<open>login\<close> answered with a non-success status ends
  with \<open>isLoading\<close> false, \<open>user\<close> and \<open>isAuthenticated\<close> as before the call, \<open>error\<close>
  set to a string, and the error re-thrown.  When the body is JSON and its \<open>message\<close> is
  a string or is missing, \<open>error\<close> is that message, or \<open>Login failed\<close> when it is missing
  or empty, and is not the empty string.  When \<open>message\<close> is another JSON value, \<open>error\<close>
  is \<open>Login failed\<close> if the value is falsy and the value's string conversion otherwise.
  When reading the body throws, \<open>error\<close> is the message of what was thrown, or
  \<open>Login failed\<close> if that is not an \<open>Error\<close>.
\<close>

theorem login_not_ok:
  "error (fst (login e p (FetchResolves (NotOk (Json (Str t)))) s))
     = Some (if t = [] then ''Login failed'' else t) \<and>
   (if t = [] then ''Login failed'' else t) \<noteq> [] \<and>
   error (fst (login e p (FetchResolves (NotOk (Json Undefined))) s)) = Some ''Login failed'' \<and>
   error (fst (login e p (FetchResolves (NotOk (Json (NonString b t)))) s))
     = Some (if b then t else ''Login failed'') \<and>
   snd (login e p (FetchResolves (NotOk (Json v))) s)
     = Some (Error ''Error'' (message_or v ''Login failed'')) \<and>
   error (fst (login e p (FetchResolves (NotOk (Json v))) s))
     = Some (message_or v ''Login failed'') \<and>
   error (fst (login e p (FetchResolves (NotOk (JsonRejects (Error n m)))) s)) = Some m \<and>
   error (fst (login e p (FetchResolves (NotOk (JsonRejects NotAnError))) s))
     = Some ''Login failed'' \<and>
   snd (login e p (FetchResolves (NotOk (JsonRejects x))) s) = Some x \<and>
   isLoading (fst (login e p (FetchResolves (NotOk body)) s)) = False \<and>
   user (fst (login e p (FetchResolves (NotOk body)) s)) = user s \<and>
   isAuthenticated (fst (login e p (FetchResolves (NotOk body)) s)) = isAuthenticated s \<and>
   error (fst (login e p (FetchResolves (NotOk body)) s)) \<noteq> None \<and>
   snd (login e p (FetchResolves (NotOk body)) s) \<noteq> None"
  by (cases body) (simp_all add: login_def auth_catch_def message_or_def)

text \<open>The scenario of the specification: a 401 with a message, on a store without a user.\<close>

theorem login_not_ok_witness:
  "login ''u@x.com'' ''badpass''
     (FetchResolves (NotOk (Json (Str ''Invalid email or password'')))) initialUserState
   = (\<lparr>user = None, isAuthenticated = False, isLoading = False,
       error = Some ''Invalid email or password''\<rparr>,
      Some (Error ''Error'' ''Invalid email or password''))"
proof -
  let ?r = "login ''u@x.com'' ''badpass''
     (FetchResolves (NotOk (Json (Str ''Invalid email or password'')))) initialUserState"
  note T = login_not_ok [where e = "''u@x.com''" and p = "''badpass''"
      and t = "''Invalid email or password''" and s = initialUserState
      and v = "Str ''Invalid email or password''"
      and body = "Json (Str ''Invalid email or password'')"]
  have a: "error (fst ?r) = Some ''Invalid email or password''"
    using T by simp
  have b: "snd ?r = Some (Error ''Error'' ''Invalid email or password'')"
    using T by (simp add: message_or_def)
  have c: "isLoading (fst ?r) = False" "user (fst ?r) = None" "isAuthenticated (fst ?r) = False"
    using T by (simp_all add: initialUserState_def)
  have "fst ?r = \<lparr>user = None, isAuthenticated = False, isLoading = False,
       error = Some ''Invalid email or password''\<rparr>"
    using a c by (cases "fst ?r") simp
  with b show ?thesis by (simp add: prod_eq_iff)
qed

text \<open>
  \<^bold>\<open>C6, as stated, fails.\<close>  A 401 whose body is \<open>{"message": []}\<close>: the empty array
  is truthy, so it is what \<open>new Error\<close> is given, and its string conversion is the empty
  string.  \<open>error\<close> ends as the empty string.
\<close>

theorem login_error_can_be_empty:
  "error (fst (login ''u@x.com'' ''badpass''
                 (FetchResolves (NotOk (Json (NonString True [])))) initialUserState))
   = Some []"
  by (simp add: login_def auth_catch_def message_or_def)

text \<open>
  \<^bold>\<open>C4, evaluated.\<close>  A successful \<open>signup\<close> whose payload carries preferences stores
  the default preferences in their place; \<open>login\<close> on the same payload keeps them.
\<close>

theorem signup_overwrites_preferences:
  "fst (signup ''u@x.com'' ''Aa1!aaaa'' ''bob''
         (FetchResolves (Ok (Json (sample_payload\<lparr>p_preferences := Some dark_preferences\<rparr>))))
         initialUserState)
   = \<lparr>user = Some \<lparr>user_id = ''1'', email = ''u@x.com'', username = ''bob'',
                    walletAddress = None, avatar = None, createdAt = 0, updatedAt = 0,
                    preferences = defaultPreferences\<rparr>,
      isAuthenticated = True, isLoading = False, error = None\<rparr> \<and>
   defaultPreferences \<noteq> dark_preferences \<and>
   fst (login ''u@x.com'' ''Aa1!aaaa''
         (FetchResolves (Ok (Json (sample_payload\<lparr>p_preferences := Some dark_preferences\<rparr>))))
         initialUserState)
   = \<lparr>user = Some \<lparr>user_id = ''1'', email = ''u@x.com'', username = ''bob'',
                    walletAddress = None, avatar = None, createdAt = 0, updatedAt = 0,
                    preferences = dark_preferences\<rparr>,
      isAuthenticated = True, isLoading = False, error = None\<rparr>"
  by (simp add: signup_def login_def with_preferences_def sample_payload_def
      initialUserState_def defaultPreferences_def dark_preferences_def)

section \<open>Properties of the streaming chat hook\<close>

subsection \<open>Lines and reads\<close>

lemma js_trim_empty_iff: "js_trim s = [] \<longleftrightarrow> (\<forall>c \<in> set s. is_space c)"
proof
  assume "js_trim s = []"
  then have all: "\<forall>c \<in> set (dropWhile is_space s). is_space c"
    by (simp add: js_trim_def)
  have "dropWhile is_space s = []"
  proof (rule ccontr)
    assume ne: "dropWhile is_space s \<noteq> []"
    then have "\<not> is_space (hd (dropWhile is_space s))"
      by (rule hd_dropWhile)
    moreover have "hd (dropWhile is_space s) \<in> set (dropWhile is_space s)"
      using ne by simp
    ultimately show False using all by blast
  qed
  then show "\<forall>c \<in> set s. is_space c" by simp
next
  assume "\<forall>c \<in> set s. is_space c"
  then show "js_trim s = []" by (auto simp: js_trim_def dest: set_dropWhileD)
qed

lemma marked_not_blank: "starts_with ''data: '' line \<Longrightarrow> js_trim line \<noteq> []"
proof -
  assume "starts_with ''data: '' line"
  then have "set ''data: '' \<subseteq> set line"
    by (metis starts_with_def set_take_subset)
  then have "CHR ''d'' \<in> set line" by auto
  moreover have "\<not> is_space CHR ''d''" by (simp add: is_space_def)
  ultimately show ?thesis by (auto simp: js_trim_empty_iff)
qed

lemma process_line_blank: "js_trim line = [] \<Longrightarrow> process_line parse acc line = acc"
  using marked_not_blank [of line] by (auto simp: process_line_def)

lemma foldl_filter_blank:
  "foldl (process_line parse) acc (filter (\<lambda>line. js_trim line \<noteq> []) ls)
   = foldl (process_line parse) acc ls"
  by (induction ls arbitrary: acc) (simp_all add: process_line_blank)

lemma split_lines_line:
  "CHR 0x0A \<notin> set l \<Longrightarrow> split_lines (l @ CHR 0x0A # rest) = l # split_lines rest"
  by (induction l) auto

lemma line_text_no_feed: "well_formed_line parse l \<Longrightarrow> CHR 0x0A \<notin> set (line_text l)"
  by (cases l) (auto simp: starts_with_def)

lemma split_lines_wire_text:
  "list_all (well_formed_line parse) ls \<Longrightarrow>
   split_lines (wire_text ls) = map line_text ls @ [[]]"
proof (induction ls)
  case Nil
  then show ?case by (simp add: wire_text_def)
next
  case (Cons l ls)
  then have "CHR 0x0A \<notin> set (line_text l)"
    using line_text_no_feed [of parse l] by simp
  then have "split_lines (line_text l @ CHR 0x0A # wire_text ls) = line_text l # split_lines (wire_text ls)"
    by (rule split_lines_line)
  moreover have "wire_text (l # ls) = line_text l @ CHR 0x0A # wire_text ls"
    by (simp add: wire_text_def)
  ultimately show ?case using Cons by simp
qed

lemma process_line_well_formed:
  "well_formed_line parse l \<Longrightarrow>
   fst (process_line parse acc (line_text l)) = fst acc @ line_payload l"
proof (cases l)
  case (ChunkLine p ch)
  assume "well_formed_line parse l"
  then show ?thesis using ChunkLine
    by (simp add: process_line_def starts_with_def truthy_def Let_def)
next
  case (RawLine p)
  assume "well_formed_line parse l"
  then show ?thesis using RawLine
    by (simp add: process_line_def starts_with_def)
next
  case Sentinel
  then show ?thesis by (simp add: process_line_def starts_with_def)
next
  case (Unmarked u)
  assume "well_formed_line parse l"
  then show ?thesis using Unmarked
    by (simp add: process_line_def)
qed

lemma foldl_process_lines:
  "list_all (well_formed_line parse) ls \<Longrightarrow>
   fst (foldl (process_line parse) acc (map line_text ls))
   = fst acc @ concat (map line_payload ls)"
  by (induction ls arbitrary: acc) (simp_all add: process_line_well_formed)

lemma process_read_wire_text:
  assumes "list_all (well_formed_line parse) ls"
  shows "fst (process_read parse acc (wire_text ls)) = fst acc @ concat (map line_payload ls)"
proof -
  have "process_read parse acc (wire_text ls)
        = foldl (process_line parse) acc (map line_text ls @ [[]])"
    unfolding process_read_def
    by (simp only: foldl_filter_blank split_lines_wire_text [OF assms])
  also have "\<dots> = foldl (process_line parse) acc (map line_text ls)"
    by (simp add: process_line_def starts_with_def)
  finally show ?thesis using assms by (simp add: foldl_process_lines)
qed

lemma foldl_process_reads:
  "list_all (list_all (well_formed_line parse)) reads \<Longrightarrow>
   fst (foldl (process_read parse) acc (map wire_text reads))
   = fst acc @ concat (map line_payload (concat reads))"
  by (induction reads arbitrary: acc) (simp_all add: process_read_wire_text)

lemma read_all_foldl:
  "read_all parse chunks c s =
     (s\<lparr>currentResponse := snd (foldl (process_read parse) (fullResponse c, currentResponse s) chunks)\<rparr>,
      c\<lparr>fullResponse := fst (foldl (process_read parse) (fullResponse c, currentResponse s) chunks)\<rparr>)"
  by (induction chunks arbitrary: c s) (simp_all add: sendMessage_read_def Let_def)

text \<open>
  \<^bold>\<open>C7, as the hook has it.\<close>  Let the stream arrive in reads that each hold whole
  lines, every line ended by a line feed, where a line is a \<open>data: \<close> line whose payload
  parses to a chunk without an error, a \<open>data: \<close> line whose payload does not parse, the
  sentinel \<open>data: [DONE]\<close>, or a line without the marker.  Then a \<open>sendMessage\<close> with
  non-blank content appends the user message and exactly one assistant message, whose
  content is, in arrival order, the \<open>content\<close> of each chunk and the raw payload of each
  line that did not parse; the sentinel and the unmarked lines add nothing; \<open>error\<close> stays
  null and the transient state is cleared.
\<close>

theorem sendMessage_whole_lines:
  assumes "js_trim content_arg \<noteq> []"
    and "list_all (list_all (well_formed_line parse)) reads"
  shows "sendMessage parse model_name ids dates content_arg
           (ChatResponse True statusText (Some (map wire_text reads, EndOfStream))) s
         = s\<lparr>messages := messages s @
                [\<lparr>msg_id = fst ids, role = UserRole, content = js_trim content_arg,
                  timestamp = fst dates, metadata = None\<rparr>,
                 \<lparr>msg_id = snd ids, role = AssistantRole,
                  content = concat (map line_payload (concat reads)),
                  timestamp = snd dates,
                  metadata = Some \<lparr>model = model_name, tokens = 0, latency = 0, sources = None\<rparr>\<rparr>],
              ai_isLoading := False, isStreaming := False, ai_error := None,
              currentResponse := [], abortControllerRef := None,
              allocated := Suc (allocated s)\<rparr>"
  using assms
  by (simp add: sendMessage_def sendMessage_start_def sendMessage_response_def
      read_all_foldl sendMessage_done_def sendMessage_finally_def foldl_process_reads)

theorem sendMessage_whole_lines_witness:
  \<open>js_trim ''Say hello'' \<noteq> [] \<and>
   list_all (list_all (well_formed_line parse_sample))
     [[ChunkLine ''{"content":"He"}''
         \<lparr>chunk_content = Some ''He'', chunk_done = None, chunk_error = None\<rparr>],
      [Unmarked '': ping'',
       ChunkLine ''{"content":"llo"}''
         \<lparr>chunk_content = Some ''llo'', chunk_done = None, chunk_error = None\<rparr>,
       RawLine ''!'',
       Sentinel]] \<and>
   sendMessage parse_sample ''gpt-4'' (''m1'', ''m2'') (10, 20) ''Say hello''
     (ChatResponse True ''OK''
        (Some ([''data: {"content":"He"}\<newline>'',
                '': ping\<newline>data: {"content":"llo"}\<newline>data: !\<newline>data: [DONE]\<newline>''],
               EndOfStream)))
     initialConversation
   = \<lparr>messages =
        [\<lparr>msg_id = ''m1'', role = UserRole, content = ''Say hello'', timestamp = 10,
          metadata = None\<rparr>,
         \<lparr>msg_id = ''m2'', role = AssistantRole, content = ''Hello!'', timestamp = 20,
          metadata = Some \<lparr>model = ''gpt-4'', tokens = 0, latency = 0, sources = None\<rparr>\<rparr>],
      ai_isLoading = False, isStreaming = False, ai_error = None, currentResponse = [],
      abortControllerRef = None, aborted = [], allocated = 1\<rparr>\<close>
proof -
  let ?reads = \<open>[[ChunkLine ''{"content":"He"}''
         \<lparr>chunk_content = Some ''He'', chunk_done = None, chunk_error = None\<rparr>],
      [Unmarked '': ping'',
       ChunkLine ''{"content":"llo"}''
         \<lparr>chunk_content = Some ''llo'', chunk_done = None, chunk_error = None\<rparr>,
       RawLine ''!'',
       Sentinel]]\<close>
  have a: "js_trim ''Say hello'' \<noteq> []"
    by (simp add: js_trim_def is_space_def)
  have a': "js_trim ''Say hello'' = ''Say hello''"
    by (simp add: js_trim_def is_space_def)
  have b: "list_all (list_all (well_formed_line parse_sample)) ?reads"
    by (simp add: parse_sample_def truthy_def js_text_def starts_with_def)
  have c: \<open>map wire_text ?reads = [''data: {"content":"He"}\<newline>'',
                '': ping\<newline>data: {"content":"llo"}\<newline>data: !\<newline>data: [DONE]\<newline>'']\<close>
    by (simp add: wire_text_def)
  have d: "concat (map line_payload (concat ?reads)) = ''Hello!''"
    by (simp add: js_text_def)
  show ?thesis
    using a b
      sendMessage_whole_lines [OF a b, of "''gpt-4''" "(''m1'', ''m2'')" "(10, 20)" "''OK''"
        initialConversation]
    unfolding c d a'
    by (simp add: initialConversation_def)
qed

text \<open>The scenario of the specification: the three lines in one read give \<open>Hello\<close>.\<close>

lemma hello_scenario:
  \<open>map content
     (messages
        (sendMessage parse_sample ''gpt-4'' (''m1'', ''m2'') (10, 20) ''Say hello''
           (ChatResponse True ''OK''
              (Some ([''data: {"content":"He"}\<newline>data: {"content":"llo"}\<newline>data: [DONE]\<newline>''],
                     EndOfStream)))
           initialConversation))
   = [''Say hello'', ''Hello'']\<close>
  by (simp add: parse_sample_def truthy_def js_text_def
      sendMessage_def sendMessage_start_def sendMessage_response_def sendMessage_read_def
      sendMessage_done_def sendMessage_finally_def process_read_def process_line_def
      starts_with_def js_trim_def is_space_def initialConversation_def Let_def)

text \<open>
  \<^bold>\<open>C7, as stated, fails.\<close>  The stream of the specification's scenario, cut by the
  network in the middle of its second line: its lines are the two chunks and the sentinel,
  and the assistant message is not \<open>Hello\<close>.  Each read is split into lines on its own,
  so the first half of the cut line is taken as unparsable text and the second half as a
  line without the marker.
\<close>

theorem split_line_breaks_concatenation:
  \<open>concat [''data: {"content":"He"}\<newline>data: {"con'',
           ''tent":"llo"}\<newline>data: [DONE]\<newline>'']
   = wire_text
       [ChunkLine ''{"content":"He"}''
          \<lparr>chunk_content = Some ''He'', chunk_done = None, chunk_error = None\<rparr>,
        ChunkLine ''{"content":"llo"}''
          \<lparr>chunk_content = Some ''llo'', chunk_done = None, chunk_error = None\<rparr>,
        Sentinel] \<and>
   list_all (well_formed_line parse_sample)
       [ChunkLine ''{"content":"He"}''
          \<lparr>chunk_content = Some ''He'', chunk_done = None, chunk_error = None\<rparr>,
        ChunkLine ''{"content":"llo"}''
          \<lparr>chunk_content = Some ''llo'', chunk_done = None, chunk_error = None\<rparr>,
        Sentinel] \<and>
   map content
     (messages
        (sendMessage parse_sample ''gpt-4'' (''m1'', ''m2'') (10, 20) ''Say hello''
           (ChatResponse True ''OK''
              (Some ([''data: {"content":"He"}\<newline>data: {"con'',
                      ''tent":"llo"}\<newline>data: [DONE]\<newline>''],
                     EndOfStream)))
           initialConversation))
   = [''Say hello'', ''He{"con'']\<close>
  by (simp add: wire_text_def parse_sample_def truthy_def js_text_def
      sendMessage_def sendMessage_start_def sendMessage_response_def sendMessage_read_def
      sendMessage_done_def sendMessage_finally_def process_read_def process_line_def
      starts_with_def js_trim_def is_space_def initialConversation_def Let_def)

text \<open>
  \<^bold>\<open>C3, evaluated.\<close>  A chunk that parses and carries an \<open>error\<close> does not end the
  stream: its raw payload is appended to the answer, the chunks after it are still
  accumulated, \<open>error\<close> stays null and the assistant message is appended.
\<close>

theorem error_chunk_is_accumulated:
  \<open>sendMessage parse_sample ''gpt-4'' (''m1'', ''m2'') (10, 20) ''Say hello''
     (ChatResponse True ''OK''
        (Some ([''data: {"content":"He"}\<newline>data: {"error":"boom"}\<newline>data: {"content":"llo"}\<newline>''],
               EndOfStream)))
     initialConversation
   = \<lparr>messages =
        [\<lparr>msg_id = ''m1'', role = UserRole, content = ''Say hello'', timestamp = 10,
          metadata = None\<rparr>,
         \<lparr>msg_id = ''m2'', role = AssistantRole, content = ''He{"error":"boom"}llo'',
          timestamp = 20,
          metadata = Some \<lparr>model = ''gpt-4'', tokens = 0, latency = 0, sources = None\<rparr>\<rparr>],
      ai_isLoading = False, isStreaming = False, ai_error = None, currentResponse = [],
      abortControllerRef = None, aborted = [], allocated = 1\<rparr>\<close>
  by (simp add: parse_sample_def truthy_def js_text_def
      sendMessage_def sendMessage_start_def sendMessage_response_def sendMessage_read_def
      sendMessage_done_def sendMessage_finally_def process_read_def process_line_def
      starts_with_def js_trim_def is_space_def initialConversation_def Let_def)

subsection \<open>Overlapping calls\<close>
















end
